theory Spec2Isabelle
  imports Main
begin

section \<open>The CDK objects the stack constructor works with\<close>

text \<open>
  The repository is one CDK stack, \<^verbatim>\<open>BenkhardJenkinsStack\<close> in
  \<^verbatim>\<open>lib/benkhard-jenkins-stack.ts\<close>, and the entry point that instantiates it.
  The constructor is straight-line code over the CDK library. The library is not part of
  the repository: every object it hands back is a parameter of the model (the record
  \<open>env\<close> below), and every library call may raise. The constructor has no
  \<^verbatim>\<open>try\<close>/\<^verbatim>\<open>catch\<close>, so an exception of a call ends the construction.
\<close>

subsection \<open>Library calls, in the order of the source\<close>

datatype lib_call =
    VpcFromLookup
  | NewCluster
  | NewClusterArnParameter
  | NewClusterNameParameter
  | CertificateValueFromLookup
  | CertificateFromArn
  | HostedZoneValueFromLookup
  | HostedZoneFromAttributes
  | NewFileSystem
  | AddAccessPoint
  | NewLoadBalancedFargateService
  | NewAwsCustomResource
  | TagsAdd
  | ExecutionRoleGrantPassRole
  | TaskRoleGrantPassRole
  | ConnectionsAllowFrom
  | ConnectionsAllowTo
  | AddPropertyOverride
  | ConfigureHealthCheck

datatype error = Thrown lib_call

type_synonym 'a result = "error + 'a"

subsection \<open>Handles returned by the library\<close>

record cluster_handle =
  clusterArn :: string
  clusterName :: string

record certificate_handle =
  certificateArn :: string

record hosted_zone =
  hostedZoneId :: string
  zoneName :: string

record file_system_handle =
  fileSystemId :: string

record access_point_handle =
  accessPointId :: string

record role =
  roleArn :: string

record log_driver_config =
  logDriver :: string
  options :: "(string \<times> string) list option"

record container_definition =
  containerName :: string
  logDriverConfig :: "log_driver_config option"

text \<open>
  The task definition created by the service builder (the placeholder). Its
  \<^verbatim>\<open>defaultContainer\<close> and \<^verbatim>\<open>executionRole\<close> are optional in the library's types
  and the source reads both through \<^verbatim>\<open>?.\<close>; \<^verbatim>\<open>taskRole\<close> is not optional.
\<close>

record task_definition =
  defaultContainer :: "container_definition option"
  executionRole :: "role option"
  taskRole :: role
  family :: string

text \<open>
  A value of a resource property in the template: a reference to a task definition
  declared in the template (what the service builder puts into its service), or a
  response field of a custom resource (what \<^verbatim>\<open>getResponseField\<close> returns).
\<close>

datatype cfn_value =
    TaskDefinitionRef string
  | ResponseField string string

record cfn_service =
  taskDefinitionProperty :: cfn_value
  propertyOverrides :: "string \<rightharpoonup> cfn_value"

record service_handle =
  taskDefinition :: task_definition
  serviceNodeChildren :: "string \<rightharpoonup> cfn_service"

subsection \<open>The external environment\<close>

record env =
  throws :: "lib_call \<Rightarrow> bool"
  vpcFromLookup :: "bool \<Rightarrow> string"
  valueFromLookup :: "string \<Rightarrow> string"
  cluster :: cluster_handle
  fileSystem :: file_system_handle
  accessPoint :: access_point_handle
  loadBalancerFargateService :: service_handle
  grantPrincipal :: string

subsection \<open>Enumerations of the library used by the source\<close>

datatype network_mode = NONE | BRIDGE | AWS_VPC | HOST | NAT

datatype fargate_platform_version = LATEST | VERSION1_4 | VERSION1_3 | VERSION1_2 | VERSION1_1 | VERSION1_0

datatype performance_mode = GENERAL_PURPOSE | MAX_IO

datatype duration = Minutes int

datatype port = Tcp int

datatype physical_resource_id = FromResponse string

datatype policy = FromSdkCalls "string list"

definition ANY_RESOURCE :: "string list" where
  "ANY_RESOURCE = [''*'']"

subsection \<open>Object literals of the source\<close>

record authorization_config =
  ac_accessPointId :: string

record efs_volume_configuration =
  vc_fileSystemId :: string
  vc_rootDirectory :: string
  vc_transitEncryption :: string
  vc_authorizationConfig :: authorization_config

record volume =
  vol_name :: string
  vol_efsVolumeConfiguration :: efs_volume_configuration

record mount_point =
  mp_containerPath :: string
  mp_sourceVolume :: string
  mp_readOnly :: bool

record port_mapping =
  pm_containerPort :: int
  pm_protocol :: string

record log_configuration =
  lc_logDriver :: "string option"
  lc_options :: "(string \<times> string) list option"

record container_json =
  cd_essential :: bool
  cd_image :: string
  cd_logConfiguration :: log_configuration
  cd_memory :: int
  cd_mountPoints :: "mount_point list"
  cd_name :: "string option"
  cd_portMappings :: "port_mapping list"

record task_definition_json =
  td_containerDefinitions :: "container_json list"
  td_cpu :: int
  td_executionRoleArn :: "string option"
  td_family :: string
  td_memory :: int
  td_networkMode :: network_mode
  td_requiresCompatibilities :: "string list"
  td_taskRoleArn :: string
  td_volumes :: "volume list"

record sdk_call =
  call_service :: string
  call_action :: string
  call_outputPath :: string
  call_parameters :: task_definition_json
  call_physicalResourceId :: physical_resource_id

record custom_resource_props =
  onCreate :: "sdk_call option"
  onUpdate :: "sdk_call option"
  onDelete :: "sdk_call option"
  cr_policy :: policy

record vpc_lookup_options =
  isDefault :: bool

record cluster_props =
  cp_vpc :: string
  cp_clusterName :: string

record string_parameter_props =
  parameterName :: string
  description :: string
  stringValue :: string

record file_system_props =
  fs_vpc :: string
  fileSystemName :: string
  encrypted :: bool
  performanceMode :: performance_mode

record acl =
  ownerGid :: string
  ownerUid :: string
  permissions :: string

record posix_user =
  gid :: string
  uid :: string

record access_point_props =
  createAcl :: acl
  ap_path :: string
  posixUser :: posix_user

record task_image_options =
  tio_image :: string
  tio_containerPort :: int

record service_props =
  sp_cluster :: cluster_handle
  sp_platformVersion :: fargate_platform_version
  sp_cpu :: int
  sp_desiredCount :: int
  sp_taskImageOptions :: task_image_options
  sp_memoryLimitMiB :: int
  sp_publicLoadBalancer :: bool
  sp_assignPublicIp :: bool
  sp_certificate :: certificate_handle
  sp_healthCheckGracePeriod :: duration
  sp_domainName :: string
  sp_domainZone :: hosted_zone

datatype construct =
    VpcLookup vpc_lookup_options
  | EcsCluster cluster_props
  | SsmStringParameter string_parameter_props
  | AcmCertificate certificate_handle
  | Route53HostedZone hosted_zone
  | EfsFileSystem file_system_props
  | EfsAccessPoint access_point_props
  | ApplicationLoadBalancedFargateService service_props
  | AwsCustomResource custom_resource_props

subsection \<open>The stack under construction\<close>

record environment =
  account :: string
  region :: string

record stack_props =
  props_env :: "environment option"

datatype direction = From | To

record connection_rule =
  rule_direction :: direction
  rule_peer :: file_system_handle
  rule_port :: port

record pass_role_grant =
  granted_role :: role
  grantee :: string

text \<open>
  The constructs are kept in creation order, each with the id of its scope and its own id.
  \<open>serviceNode\<close> holds the children of the node of
  \<^verbatim>\<open>loadBalancerFargateService.service\<close> by id.
\<close>

record stack =
  stackId :: string
  stackProps :: "stack_props option"
  constructs :: "(string \<times> string \<times> construct) list"
  tags :: "(string \<times> string \<times> string) list"
  passRoleGrants :: "pass_role_grant list"
  connectionRules :: "connection_rule list"
  serviceNode :: "string \<rightharpoonup> cfn_service"
  healthCheckPath :: "string option"

definition new_stack :: "string \<Rightarrow> stack_props option \<Rightarrow> stack" where
  "new_stack ident props =
     \<lparr>stackId = ident, stackProps = props, constructs = [], tags = [], passRoleGrants = [],
      connectionRules = [], serviceNode = Map.empty, healthCheckPath = None\<rparr>"

definition add_construct :: "string \<Rightarrow> string \<Rightarrow> construct \<Rightarrow> stack \<Rightarrow> stack" where
  "add_construct scope ident c s = s\<lparr>constructs := constructs s @ [(scope, ident, c)]\<rparr>"

text \<open>A library call: it raises when the environment says so, and otherwise has its effect.\<close>

definition invoke :: "env \<Rightarrow> lib_call \<Rightarrow> stack \<Rightarrow> stack result" where
  "invoke e c s = (if throws e c then Inl (Thrown c) else Inr s)"

text \<open>Statements run in order; the first exception ends the run.\<close>

fun run :: "(stack \<Rightarrow> stack result) list \<Rightarrow> stack \<Rightarrow> stack result" where
  "run [] s = Inr s"
| "run (f # fs) s = (case f s of Inl err \<Rightarrow> Inl err | Inr s' \<Rightarrow> run fs s')"

text \<open>
  Modelled from the spec: \<^verbatim>\<open>CfnResource.addPropertyOverride\<close> of the CDK library, which
  is not in the repository. Section 4.5 step 4 of the spec: a forced property override on an
  existing resource, after which the property refers to the given value instead of the one
  the builder declared.
\<close>

definition addPropertyOverride :: "string \<Rightarrow> cfn_value \<Rightarrow> cfn_service \<Rightarrow> cfn_service" where
  "addPropertyOverride p v r = r\<lparr>propertyOverrides := (propertyOverrides r)(p \<mapsto> v)\<rparr>"

text \<open>
  Modelled from the spec: the task-definition property of the service resource as it is
  deployed, which the CDK library computes when it renders the template. Section 4.5 step 4
  of the spec: after the override the property refers to the new revision instead of the
  placeholder; without one it is what the builder declared.
\<close>

definition deployedTaskDefinition :: "cfn_service \<Rightarrow> cfn_value" where
  "deployedTaskDefinition r =
     (case propertyOverrides r ''TaskDefinition'' of
        Some v \<Rightarrow> v
      | None \<Rightarrow> taskDefinitionProperty r)"

section \<open>The constructor of BenkhardJenkinsStack\<close>

subsection \<open>Local constants\<close>

definition vpc :: "env \<Rightarrow> string" where
  "vpc e = vpcFromLookup e True"

definition certificateArn_local :: "env \<Rightarrow> string" where
  "certificateArn_local e = valueFromLookup e ''/com/benkhard/wildcard-certificate''"

definition certificate :: "env \<Rightarrow> certificate_handle" where
  "certificate e = \<lparr>certificateArn = certificateArn_local e\<rparr>"

definition hostedZoneId_local :: "env \<Rightarrow> string" where
  "hostedZoneId_local e = valueFromLookup e ''/com/benkhard/public-hosted-zone-id''"

definition hostedZone :: "env \<Rightarrow> hosted_zone" where
  "hostedZone e = \<lparr>hostedZoneId = hostedZoneId_local e, zoneName = ''benkhard.com''\<rparr>"

definition efsVolume :: "env \<Rightarrow> volume" where
  "efsVolume e =
     \<lparr>vol_name = ''efs'',
      vol_efsVolumeConfiguration =
        \<lparr>vc_fileSystemId = fileSystemId (fileSystem e),
         vc_rootDirectory = ''/'',
         vc_transitEncryption = ''ENABLED'',
         vc_authorizationConfig = \<lparr>ac_accessPointId = accessPointId (accessPoint e)\<rparr>\<rparr>\<rparr>"

definition jenkinsEfsMountPoint :: "env \<Rightarrow> mount_point" where
  "jenkinsEfsMountPoint e =
     \<lparr>mp_containerPath = ''/var/jenkins_home'',
      mp_sourceVolume = vol_name (efsVolume e),
      mp_readOnly = False\<rparr>"

definition image_str :: string where
  "image_str = ''jenkins/jenkins''"

definition cpu :: int where
  "cpu = 256"

definition memoryLimit :: int where
  "memoryLimit = 1024"

definition containerPort :: int where
  "containerPort = 8080"

definition loadBalancerFargateService_props :: "env \<Rightarrow> service_props" where
  "loadBalancerFargateService_props e =
     \<lparr>sp_cluster = cluster e,
      sp_platformVersion = VERSION1_4,
      sp_cpu = cpu,
      sp_desiredCount = 1,
      sp_taskImageOptions = \<lparr>tio_image = image_str, tio_containerPort = containerPort\<rparr>,
      sp_memoryLimitMiB = memoryLimit,
      sp_publicLoadBalancer = True,
      sp_assignPublicIp = True,
      sp_certificate = certificate e,
      sp_healthCheckGracePeriod = Minutes 5,
      sp_domainName = ''jenkins.benkhard.com'',
      sp_domainZone = hostedZone e\<rparr>"

text \<open>
  \<^verbatim>\<open>a?.b?.c\<close> is undefined as soon as one link is: the chains over
  \<^verbatim>\<open>defaultContainer\<close> and \<^verbatim>\<open>executionRole\<close> are written with \<open>Option.bind\<close>
  and \<open>map_option\<close>.
\<close>

definition customTaskDefinitionJson :: "env \<Rightarrow> task_definition_json" where
  "customTaskDefinitionJson e =
     \<lparr>td_containerDefinitions =
        [\<lparr>cd_essential = True,
          cd_image = image_str,
          cd_logConfiguration =
            \<lparr>lc_logDriver =
               map_option logDriver
                 (Option.bind (defaultContainer (taskDefinition (loadBalancerFargateService e)))
                    logDriverConfig),
             lc_options =
               Option.bind
                 (Option.bind (defaultContainer (taskDefinition (loadBalancerFargateService e)))
                    logDriverConfig)
                 options\<rparr>,
          cd_memory = memoryLimit,
          cd_mountPoints = [jenkinsEfsMountPoint e],
          cd_name =
            map_option containerName
              (defaultContainer (taskDefinition (loadBalancerFargateService e))),
          cd_portMappings = [\<lparr>pm_containerPort = containerPort, pm_protocol = ''tcp''\<rparr>]\<rparr>],
      td_cpu = cpu,
      td_executionRoleArn =
        map_option roleArn (executionRole (taskDefinition (loadBalancerFargateService e))),
      td_family = family (taskDefinition (loadBalancerFargateService e)),
      td_memory = memoryLimit,
      td_networkMode = AWS_VPC,
      td_requiresCompatibilities = [''FARGATE''],
      td_taskRoleArn = roleArn (taskRole (taskDefinition (loadBalancerFargateService e))),
      td_volumes = [efsVolume e]\<rparr>"

definition createOrUpdateCustomTaskDefinition :: "env \<Rightarrow> sdk_call" where
  "createOrUpdateCustomTaskDefinition e =
     \<lparr>call_service = ''ECS'',
      call_action = ''registerTaskDefinition'',
      call_outputPath = ''taskDefinition.taskDefinitionArn'',
      call_parameters = customTaskDefinitionJson e,
      call_physicalResourceId = FromResponse ''taskDefinition.taskDefinitionArn''\<rparr>"

definition customTaskDefinition_props :: "env \<Rightarrow> custom_resource_props" where
  "customTaskDefinition_props e =
     \<lparr>onCreate = Some (createOrUpdateCustomTaskDefinition e),
      onUpdate = Some (createOrUpdateCustomTaskDefinition e),
      onDelete = None,
      cr_policy = FromSdkCalls ANY_RESOURCE\<rparr>"

definition getResponseField :: "string \<Rightarrow> cfn_value" where
  "getResponseField p = ResponseField ''CustomFargateTaskDefinition'' p"

subsection \<open>Statements\<close>

definition stmt_vpc :: "env \<Rightarrow> stack \<Rightarrow> stack result" where
  "stmt_vpc e s =
     invoke e VpcFromLookup
       (add_construct (stackId s) ''DefaultVPC'' (VpcLookup \<lparr>isDefault = True\<rparr>) s)"

definition stmt_cluster :: "env \<Rightarrow> stack \<Rightarrow> stack result" where
  "stmt_cluster e s =
     invoke e NewCluster
       (add_construct (stackId s) ''PlatformCluster''
          (EcsCluster \<lparr>cp_vpc = vpc e, cp_clusterName = ''jenkins-cluster''\<rparr>) s)"

definition stmt_cluster_arn_parameter :: "env \<Rightarrow> stack \<Rightarrow> stack result" where
  "stmt_cluster_arn_parameter e s =
     invoke e NewClusterArnParameter
       (add_construct (stackId s) ''PlatformClusterArnSSMParameter''
          (SsmStringParameter
             \<lparr>parameterName = ''/com/benkhard/platform-cluster-arn'',
              description = ''The arn of the Platform ECS cluster.'',
              stringValue = clusterArn (cluster e)\<rparr>) s)"

definition stmt_cluster_name_parameter :: "env \<Rightarrow> stack \<Rightarrow> stack result" where
  "stmt_cluster_name_parameter e s =
     invoke e NewClusterNameParameter
       (add_construct (stackId s) ''PlatformClusterNameSSMParameter''
          (SsmStringParameter
             \<lparr>parameterName = ''/com/benkhard/platform-cluster-name'',
              description = ''The name of the Platform ECS cluster.'',
              stringValue = clusterName (cluster e)\<rparr>) s)"

definition stmt_certificate_arn :: "env \<Rightarrow> stack \<Rightarrow> stack result" where
  "stmt_certificate_arn e s = invoke e CertificateValueFromLookup s"

definition stmt_certificate :: "env \<Rightarrow> stack \<Rightarrow> stack result" where
  "stmt_certificate e s =
     invoke e CertificateFromArn
       (add_construct (stackId s) ''WildcardCertificate'' (AcmCertificate (certificate e)) s)"

definition stmt_hosted_zone_id :: "env \<Rightarrow> stack \<Rightarrow> stack result" where
  "stmt_hosted_zone_id e s = invoke e HostedZoneValueFromLookup s"

definition stmt_hosted_zone :: "env \<Rightarrow> stack \<Rightarrow> stack result" where
  "stmt_hosted_zone e s =
     invoke e HostedZoneFromAttributes
       (add_construct (stackId s) ''PublicHostedZone'' (Route53HostedZone (hostedZone e)) s)"

definition stmt_file_system :: "env \<Rightarrow> stack \<Rightarrow> stack result" where
  "stmt_file_system e s =
     invoke e NewFileSystem
       (add_construct (stackId s) ''JenkinsEfsFileSystem''
          (EfsFileSystem
             \<lparr>fs_vpc = vpc e, fileSystemName = ''jenkins-fs'', encrypted = True,
              performanceMode = GENERAL_PURPOSE\<rparr>) s)"

definition stmt_access_point :: "env \<Rightarrow> stack \<Rightarrow> stack result" where
  "stmt_access_point e s =
     invoke e AddAccessPoint
       (add_construct ''JenkinsEfsFileSystem'' ''JenkinsAccessPoint''
          (EfsAccessPoint
             \<lparr>createAcl = \<lparr>ownerGid = ''1000'', ownerUid = ''1000'', permissions = ''777''\<rparr>,
              ap_path = ''/jenkins'',
              posixUser = \<lparr>gid = ''1000'', uid = ''1000''\<rparr>\<rparr>) s)"

definition stmt_service :: "env \<Rightarrow> stack \<Rightarrow> stack result" where
  "stmt_service e s =
     invoke e NewLoadBalancedFargateService
       ((add_construct (stackId s) ''JenkinsService''
           (ApplicationLoadBalancedFargateService (loadBalancerFargateService_props e)) s)
        \<lparr>serviceNode := serviceNodeChildren (loadBalancerFargateService e)\<rparr>)"

definition stmt_custom_resource :: "env \<Rightarrow> stack \<Rightarrow> stack result" where
  "stmt_custom_resource e s =
     invoke e NewAwsCustomResource
       (add_construct ''JenkinsService'' ''CustomFargateTaskDefinition''
          (AwsCustomResource (customTaskDefinition_props e)) s)"

definition stmt_tags :: "env \<Rightarrow> stack \<Rightarrow> stack result" where
  "stmt_tags e s =
     invoke e TagsAdd
       (s\<lparr>tags := tags s @ [(''CustomFargateTaskDefinition'', ''service'', ''jenkins'')]\<rparr>)"

text \<open>
  \<^verbatim>\<open>executionRole?.grantPassRole(...)\<close>: with no execution role the statement does
  nothing and makes no call.
\<close>

definition stmt_grant_execution_role :: "env \<Rightarrow> stack \<Rightarrow> stack result" where
  "stmt_grant_execution_role e s =
     (case executionRole (taskDefinition (loadBalancerFargateService e)) of
        None \<Rightarrow> Inr s
      | Some r \<Rightarrow>
          invoke e ExecutionRoleGrantPassRole
            (s\<lparr>passRoleGrants := passRoleGrants s @
                 [\<lparr>granted_role = r, grantee = grantPrincipal e\<rparr>]\<rparr>))"

definition stmt_grant_task_role :: "env \<Rightarrow> stack \<Rightarrow> stack result" where
  "stmt_grant_task_role e s =
     invoke e TaskRoleGrantPassRole
       (s\<lparr>passRoleGrants := passRoleGrants s @
            [\<lparr>granted_role = taskRole (taskDefinition (loadBalancerFargateService e)),
              grantee = grantPrincipal e\<rparr>]\<rparr>)"

definition stmt_allow_from :: "env \<Rightarrow> stack \<Rightarrow> stack result" where
  "stmt_allow_from e s =
     invoke e ConnectionsAllowFrom
       (s\<lparr>connectionRules := connectionRules s @
            [\<lparr>rule_direction = From, rule_peer = fileSystem e, rule_port = Tcp 2049\<rparr>]\<rparr>)"

definition stmt_allow_to :: "env \<Rightarrow> stack \<Rightarrow> stack result" where
  "stmt_allow_to e s =
     invoke e ConnectionsAllowTo
       (s\<lparr>connectionRules := connectionRules s @
            [\<lparr>rule_direction = To, rule_peer = fileSystem e, rule_port = Tcp 2049\<rparr>]\<rparr>)"

text \<open>
  \<^verbatim>\<open>(service.node.tryFindChild("Service") as CfnService)?.addPropertyOverride(...)\<close>:
  the child is looked up by id; when there is none the statement does nothing, and the
  argument is not evaluated either.
\<close>

definition stmt_override :: "env \<Rightarrow> stack \<Rightarrow> stack result" where
  "stmt_override e s =
     (case serviceNode s ''Service'' of
        None \<Rightarrow> Inr s
      | Some r \<Rightarrow>
          invoke e AddPropertyOverride
            (s\<lparr>serviceNode := (serviceNode s)(''Service'' \<mapsto>
                 addPropertyOverride ''TaskDefinition''
                   (getResponseField ''taskDefinition.taskDefinitionArn'') r)\<rparr>))"

definition stmt_health_check :: "env \<Rightarrow> stack \<Rightarrow> stack result" where
  "stmt_health_check e s =
     invoke e ConfigureHealthCheck (s\<lparr>healthCheckPath := Some ''/login''\<rparr>)"

subsection \<open>The constructor and the entry point\<close>

definition BenkhardJenkinsStack :: "env \<Rightarrow> string \<Rightarrow> stack_props option \<Rightarrow> stack result" where
  "BenkhardJenkinsStack e ident props =
     run [stmt_vpc e, stmt_cluster e, stmt_cluster_arn_parameter e,
          stmt_cluster_name_parameter e, stmt_certificate_arn e, stmt_certificate e,
          stmt_hosted_zone_id e, stmt_hosted_zone e, stmt_file_system e, stmt_access_point e,
          stmt_service e, stmt_custom_resource e, stmt_tags e, stmt_grant_execution_role e,
          stmt_grant_task_role e, stmt_allow_from e, stmt_allow_to e, stmt_override e,
          stmt_health_check e]
       (new_stack ident props)"

text \<open>
  The entry point exists in two versions: the first passes no props, the second fixes the
  deploy target.
\<close>

definition app :: "env \<Rightarrow> stack result" where
  "app e = BenkhardJenkinsStack e ''BenkhardJenkinsStack'' None"

definition app_with_env :: "env \<Rightarrow> stack result" where
  "app_with_env e =
     BenkhardJenkinsStack e ''BenkhardJenkinsStack''
       (Some \<lparr>props_env = Some \<lparr>account = ''111972343318'', region = ''eu-west-1''\<rparr>\<rparr>)"

section \<open>Observations on a constructed stack\<close>

fun service_of :: "construct \<Rightarrow> service_props option" where
  "service_of (ApplicationLoadBalancedFargateService p) = Some p"
| "service_of _ = None"

fun custom_resource_of :: "construct \<Rightarrow> custom_resource_props option" where
  "custom_resource_of (AwsCustomResource p) = Some p"
| "custom_resource_of _ = None"

fun access_point_of :: "construct \<Rightarrow> access_point_props option" where
  "access_point_of (EfsAccessPoint p) = Some p"
| "access_point_of _ = None"

definition services :: "stack \<Rightarrow> service_props list" where
  "services s = List.map_filter (\<lambda>(scope, ident, c). service_of c) (constructs s)"

definition custom_resources :: "stack \<Rightarrow> custom_resource_props list" where
  "custom_resources s =
     List.map_filter (\<lambda>(scope, ident, c). custom_resource_of c) (constructs s)"

definition access_points :: "stack \<Rightarrow> access_point_props list" where
  "access_points s = List.map_filter (\<lambda>(scope, ident, c). access_point_of c) (constructs s)"

text \<open>
  What the two guarded statements add: the grants of
  \<^verbatim>\<open>executionRole?.grantPassRole\<close> and the children of the service node after
  \<^verbatim>\<open>tryFindChild("Service")?.addPropertyOverride\<close>.
\<close>

definition execution_role_grants :: "env \<Rightarrow> pass_role_grant list" where
  "execution_role_grants e =
     (case executionRole (taskDefinition (loadBalancerFargateService e)) of
        None \<Rightarrow> []
      | Some r \<Rightarrow> [\<lparr>granted_role = r, grantee = grantPrincipal e\<rparr>])"

definition task_role_grant :: "env \<Rightarrow> pass_role_grant" where
  "task_role_grant e =
     \<lparr>granted_role = taskRole (taskDefinition (loadBalancerFargateService e)),
      grantee = grantPrincipal e\<rparr>"

definition overridden :: "(string \<rightharpoonup> cfn_service) \<Rightarrow> (string \<rightharpoonup> cfn_service)" where
  "overridden m =
     (case m ''Service'' of
        None \<Rightarrow> m
      | Some r \<Rightarrow>
          m(''Service'' \<mapsto>
            addPropertyOverride ''TaskDefinition''
              (getResponseField ''taskDefinition.taskDefinitionArn'') r))"

section \<open>Concrete environments\<close>

text \<open>
  \<open>env_jenkins\<close>: every optional collaborator is there, the service node has its
  \<^verbatim>\<open>CfnService\<close> under the id \<^verbatim>\<open>Service\<close>, and no library call raises.
\<close>

definition placeholder_service :: cfn_service where
  "placeholder_service =
     \<lparr>taskDefinitionProperty = TaskDefinitionRef ''JenkinsServiceTaskDef'',
      propertyOverrides = Map.empty\<rparr>"

definition task_definition_jenkins :: task_definition where
  "task_definition_jenkins =
     \<lparr>defaultContainer =
        Some \<lparr>containerName = ''web'',
              logDriverConfig =
                Some \<lparr>logDriver = ''awslogs'',
                      options = Some [(''awslogs-stream-prefix'', ''JenkinsService'')]\<rparr>\<rparr>,
      executionRole = Some \<lparr>roleArn = ''arn:aws:iam::111972343318:role/execution''\<rparr>,
      taskRole = \<lparr>roleArn = ''arn:aws:iam::111972343318:role/task''\<rparr>,
      family = ''BenkhardJenkinsStackJenkinsServiceTaskDef''\<rparr>"

definition env_jenkins :: env where
  "env_jenkins =
     \<lparr>throws = (\<lambda>c. False),
      vpcFromLookup = (\<lambda>d. if d then ''vpc-default'' else ''vpc-other''),
      valueFromLookup = (\<lambda>k. ''dummy-value-for-'' @ k),
      cluster = \<lparr>clusterArn = ''arn:aws:ecs:eu-west-1:111972343318:cluster/jenkins-cluster'',
                 clusterName = ''jenkins-cluster''\<rparr>,
      fileSystem = \<lparr>fileSystemId = ''fs-0123''\<rparr>,
      accessPoint = \<lparr>accessPointId = ''fsap-0123''\<rparr>,
      loadBalancerFargateService =
        \<lparr>taskDefinition = task_definition_jenkins,
         serviceNodeChildren = [''Service'' \<mapsto> placeholder_service]\<rparr>,
      grantPrincipal = ''arn:aws:iam::111972343318:role/custom-resource''\<rparr>"

text \<open>
  \<open>env_bare\<close>: the placeholder has neither an execution role nor a default container,
  and the service node has no children.
\<close>

definition env_bare :: env where
  "env_bare =
     env_jenkins\<lparr>loadBalancerFargateService :=
       \<lparr>taskDefinition =
          \<lparr>defaultContainer = None, executionRole = None,
           taskRole = \<lparr>roleArn = ''arn:aws:iam::111972343318:role/task''\<rparr>,
           family = ''BenkhardJenkinsStackJenkinsServiceTaskDef''\<rparr>,
        serviceNodeChildren = Map.empty\<rparr>\<rparr>"

text \<open>
  \<open>env_elsewhere\<close>: an environment in which every lookup of the constructor resolves to
  something else than in \<open>env_jenkins\<close>.
\<close>

definition env_elsewhere :: env where
  "env_elsewhere =
     env_jenkins\<lparr>vpcFromLookup := (\<lambda>d. ''vpc-elsewhere''),
                  valueFromLookup := (\<lambda>k. ''elsewhere:'' @ k)\<rparr>"


section \<open>How a run succeeds\<close>

lemma run_Nil_Inr: "run [] s = Inr t \<longleftrightarrow> t = s"
  by auto

lemma run_Cons_Inr:
  "run (f # fs) s = Inr t \<longleftrightarrow> (\<exists>u. f s = Inr u \<and> run fs u = Inr t)"
  by (cases "f s") simp_all

lemma invoke_Inr: "invoke e c s = Inr t \<longleftrightarrow> \<not> throws e c \<and> t = s"
  by (auto simp: invoke_def)

lemma stmt_grant_execution_role_Inr:
  "stmt_grant_execution_role e s = Inr t \<longleftrightarrow>
     (executionRole (taskDefinition (loadBalancerFargateService e)) = None \<or>
        \<not> throws e ExecutionRoleGrantPassRole) \<and>
     t = s\<lparr>passRoleGrants := passRoleGrants s @ execution_role_grants e\<rparr>"
  by (auto simp: stmt_grant_execution_role_def execution_role_grants_def invoke_Inr
      split: option.splits)

lemma stmt_override_Inr:
  "stmt_override e s = Inr t \<longleftrightarrow>
     (serviceNode s ''Service'' = None \<or> \<not> throws e AddPropertyOverride) \<and>
     t = s\<lparr>serviceNode := overridden (serviceNode s)\<rparr>"
  by (auto simp: stmt_override_def overridden_def invoke_Inr split: option.splits)

lemmas stmt_Inr =
  run_Cons_Inr run_Nil_Inr invoke_Inr stmt_grant_execution_role_Inr stmt_override_Inr
  stmt_vpc_def stmt_cluster_def stmt_cluster_arn_parameter_def stmt_cluster_name_parameter_def
  stmt_certificate_arn_def stmt_certificate_def stmt_hosted_zone_id_def stmt_hosted_zone_def
  stmt_file_system_def stmt_access_point_def stmt_service_def stmt_custom_resource_def
  stmt_tags_def stmt_grant_task_role_def stmt_allow_from_def stmt_allow_to_def
  stmt_health_check_def new_stack_def add_construct_def

text \<open>The calls a run makes: all but the two guarded ones, and those when their guard holds.\<close>

lemma success_iff:
  "(\<exists>s. BenkhardJenkinsStack e ident props = Inr s) \<longleftrightarrow>
     \<not> throws e VpcFromLookup \<and> \<not> throws e NewCluster \<and>
     \<not> throws e NewClusterArnParameter \<and> \<not> throws e NewClusterNameParameter \<and>
     \<not> throws e CertificateValueFromLookup \<and> \<not> throws e CertificateFromArn \<and>
     \<not> throws e HostedZoneValueFromLookup \<and> \<not> throws e HostedZoneFromAttributes \<and>
     \<not> throws e NewFileSystem \<and> \<not> throws e AddAccessPoint \<and>
     \<not> throws e NewLoadBalancedFargateService \<and> \<not> throws e NewAwsCustomResource \<and>
     \<not> throws e TagsAdd \<and>
     (executionRole (taskDefinition (loadBalancerFargateService e)) = None \<or>
        \<not> throws e ExecutionRoleGrantPassRole) \<and>
     \<not> throws e TaskRoleGrantPassRole \<and> \<not> throws e ConnectionsAllowFrom \<and>
     \<not> throws e ConnectionsAllowTo \<and>
     (serviceNodeChildren (loadBalancerFargateService e) ''Service'' = None \<or>
        \<not> throws e AddPropertyOverride) \<and>
     \<not> throws e ConfigureHealthCheck"
  by (simp add: BenkhardJenkinsStack_def stmt_Inr del: run.simps)

lemma no_throw_success:
  assumes "\<And>c. \<not> throws e c"
  shows "\<exists>s. BenkhardJenkinsStack e ident props = Inr s"
  using assms by (simp add: success_iff)

lemma success_stackProps:
  assumes "BenkhardJenkinsStack e ident props = Inr s"
  shows "stackProps s = props"
  using assms by (simp add: BenkhardJenkinsStack_def stmt_Inr del: run.simps)

lemma success_connectionRules:
  assumes "BenkhardJenkinsStack e ident props = Inr s"
  shows "connectionRules s =
     [\<lparr>rule_direction = From, rule_peer = fileSystem e, rule_port = Tcp 2049\<rparr>,
      \<lparr>rule_direction = To, rule_peer = fileSystem e, rule_port = Tcp 2049\<rparr>]"
  using assms by (simp add: BenkhardJenkinsStack_def stmt_Inr del: run.simps)

lemma success_passRoleGrants:
  assumes "BenkhardJenkinsStack e ident props = Inr s"
  shows "passRoleGrants s = execution_role_grants e @ [task_role_grant e]"
  using assms
  by (simp add: BenkhardJenkinsStack_def stmt_Inr task_role_grant_def del: run.simps)

lemma success_serviceNode:
  assumes "BenkhardJenkinsStack e ident props = Inr s"
  shows "serviceNode s = overridden (serviceNodeChildren (loadBalancerFargateService e))"
  using assms by (simp add: BenkhardJenkinsStack_def stmt_Inr del: run.simps)

lemma success_healthCheckPath:
  assumes "BenkhardJenkinsStack e ident props = Inr s"
  shows "healthCheckPath s = Some ''/login''"
  using assms by (simp add: BenkhardJenkinsStack_def stmt_Inr del: run.simps)

lemma success_services:
  assumes "BenkhardJenkinsStack e ident props = Inr s"
  shows "services s = [loadBalancerFargateService_props e]"
  using assms
  by (simp add: BenkhardJenkinsStack_def stmt_Inr services_def
      del: run.simps)

lemma success_custom_resources:
  assumes "BenkhardJenkinsStack e ident props = Inr s"
  shows "custom_resources s = [customTaskDefinition_props e]"
  using assms
  by (simp add: BenkhardJenkinsStack_def stmt_Inr custom_resources_def
      del: run.simps)

lemma success_access_points:
  assumes "BenkhardJenkinsStack e ident props = Inr s"
  shows "access_points s =
     [\<lparr>createAcl = \<lparr>ownerGid = ''1000'', ownerUid = ''1000'', permissions = ''777''\<rparr>,
       ap_path = ''/jenkins'',
       posixUser = \<lparr>gid = ''1000'', uid = ''1000''\<rparr>\<rparr>]"
  using assms
  by (simp add: BenkhardJenkinsStack_def stmt_Inr access_points_def
      del: run.simps)

lemma success_custom_resource_scope:
  assumes "BenkhardJenkinsStack e ident props = Inr s"
  shows "(''JenkinsService'', ''CustomFargateTaskDefinition'',
          AwsCustomResource (customTaskDefinition_props e)) \<in> set (constructs s)"
  using assms by (simp add: BenkhardJenkinsStack_def stmt_Inr del: run.simps)

text \<open>The concrete environments raise nowhere, except \<open>env_override_raises\<close>.\<close>

lemma env_jenkins_success: "\<exists>s. BenkhardJenkinsStack env_jenkins ident props = Inr s"
  by (rule no_throw_success) (simp add: env_jenkins_def)

lemma env_bare_success: "\<exists>s. BenkhardJenkinsStack env_bare ident props = Inr s"
  by (rule no_throw_success) (simp add: env_bare_def env_jenkins_def)

lemma env_elsewhere_success: "\<exists>s. BenkhardJenkinsStack env_elsewhere ident props = Inr s"
  by (rule no_throw_success) (simp add: env_elsewhere_def env_jenkins_def)

lemma success_cluster:
  assumes "BenkhardJenkinsStack e ident props = Inr s"
  shows "(ident, ''PlatformCluster'',
          EcsCluster \<lparr>cp_vpc = vpcFromLookup e True, cp_clusterName = ''jenkins-cluster''\<rparr>)
         \<in> set (constructs s)"
  using assms by (simp add: BenkhardJenkinsStack_def stmt_Inr vpc_def del: run.simps)


section \<open>The registered descriptor\<close>

text \<open>
  C2. The custom resource of a constructed stack issues the \<^verbatim>\<open>registerTaskDefinition\<close>
  call of ECS, on create and on update, and the descriptor passed as its parameters is this
  one: exactly one container definition, marked essential; its log configuration and name are
  those of the placeholder's default container; exactly one mount point, at
  \<^verbatim>\<open>/var/jenkins_home\<close>, not read-only, on the declared volume; exactly one port mapping,
  tcp on the container port of the service; network mode awsvpc; compatibilities
  \<^verbatim>\<open>["FARGATE"]\<close>; exactly one volume, \<^verbatim>\<open>efs\<close>, with transit encryption ENABLED and
  bound to the access point. The image, the cpu units and the memory are those of the service
  of the same stack, from which the builder makes the placeholder
  (\<^verbatim>\<open>jenkins/jenkins\<close>, 256, 1024); the role ARNs and the family are read from the placeholder.
\<close>

theorem C2_registered_descriptor_shape:
  assumes "BenkhardJenkinsStack e ident props = Inr s"
  shows "\<exists>cr call sv c m p v.
     custom_resources s = [cr] \<and>
     onCreate cr = Some call \<and> onUpdate cr = Some call \<and>
     call_service call = ''ECS'' \<and> call_action call = ''registerTaskDefinition'' \<and>
     services s = [sv] \<and>
     td_containerDefinitions (call_parameters call) = [c] \<and>
     cd_essential c \<and>
     cd_logConfiguration c =
       \<lparr>lc_logDriver =
          map_option logDriver
            (Option.bind (defaultContainer (taskDefinition (loadBalancerFargateService e)))
               logDriverConfig),
        lc_options =
          Option.bind
            (Option.bind (defaultContainer (taskDefinition (loadBalancerFargateService e)))
               logDriverConfig)
            options\<rparr> \<and>
     (\<forall>d cfg. defaultContainer (taskDefinition (loadBalancerFargateService e)) = Some d \<and>
        logDriverConfig d = Some cfg \<longrightarrow>
        cd_logConfiguration c =
          \<lparr>lc_logDriver = Some (logDriver cfg), lc_options = options cfg\<rparr> \<and>
        cd_name c = Some (containerName d)) \<and>
     cd_mountPoints c = [m] \<and>
     m = \<lparr>mp_containerPath = ''/var/jenkins_home'', mp_sourceVolume = vol_name v,
          mp_readOnly = False\<rparr> \<and>
     cd_portMappings c = [p] \<and>
     p = \<lparr>pm_containerPort = tio_containerPort (sp_taskImageOptions sv),
          pm_protocol = ''tcp''\<rparr> \<and>
     pm_containerPort p = 8080 \<and>
     td_networkMode (call_parameters call) = AWS_VPC \<and>
     td_requiresCompatibilities (call_parameters call) = [''FARGATE''] \<and>
     td_volumes (call_parameters call) = [v] \<and>
     v = \<lparr>vol_name = ''efs'',
          vol_efsVolumeConfiguration =
            \<lparr>vc_fileSystemId = fileSystemId (fileSystem e),
             vc_rootDirectory = ''/'',
             vc_transitEncryption = ''ENABLED'',
             vc_authorizationConfig =
               \<lparr>ac_accessPointId = accessPointId (accessPoint e)\<rparr>\<rparr>\<rparr> \<and>
     cd_image c = tio_image (sp_taskImageOptions sv) \<and> cd_image c = ''jenkins/jenkins'' \<and>
     td_cpu (call_parameters call) = sp_cpu sv \<and> td_cpu (call_parameters call) = 256 \<and>
     td_memory (call_parameters call) = sp_memoryLimitMiB sv \<and>
     td_memory (call_parameters call) = 1024 \<and>
     cd_memory c = sp_memoryLimitMiB sv \<and>
     td_executionRoleArn (call_parameters call) =
       map_option roleArn (executionRole (taskDefinition (loadBalancerFargateService e))) \<and>
     td_taskRoleArn (call_parameters call) =
       roleArn (taskRole (taskDefinition (loadBalancerFargateService e))) \<and>
     td_family (call_parameters call) =
       family (taskDefinition (loadBalancerFargateService e))"
  using success_custom_resources [OF assms] success_services [OF assms]
  by (simp add: customTaskDefinition_props_def createOrUpdateCustomTaskDefinition_def
      customTaskDefinitionJson_def loadBalancerFargateService_props_def
      jenkinsEfsMountPoint_def efsVolume_def image_str_def cpu_def memoryLimit_def
      containerPort_def)

theorem C2_registered_descriptor_shape_witness:
  "\<exists>s cr call c.
     app_with_env env_jenkins = Inr s \<and>
     custom_resources s = [cr] \<and> onCreate cr = Some call \<and>
     td_containerDefinitions (call_parameters call) = [c] \<and>
     cd_logConfiguration c =
       \<lparr>lc_logDriver = Some ''awslogs'',
        lc_options = Some [(''awslogs-stream-prefix'', ''JenkinsService'')]\<rparr> \<and>
     cd_name c = Some ''web'' \<and>
     map mp_containerPath (cd_mountPoints c) = [''/var/jenkins_home''] \<and>
     map pm_containerPort (cd_portMappings c) = [8080] \<and>
     td_executionRoleArn (call_parameters call) =
       Some ''arn:aws:iam::111972343318:role/execution''"
proof -
  obtain s where s:
    "BenkhardJenkinsStack env_jenkins ''BenkhardJenkinsStack''
       (Some \<lparr>props_env = Some \<lparr>account = ''111972343318'', region = ''eu-west-1''\<rparr>\<rparr>) = Inr s"
    using env_jenkins_success by blast
  have container:
    "defaultContainer (taskDefinition (loadBalancerFargateService env_jenkins)) =
       Some \<lparr>containerName = ''web'',
             logDriverConfig =
               Some \<lparr>logDriver = ''awslogs'',
                     options = Some [(''awslogs-stream-prefix'', ''JenkinsService'')]\<rparr>\<rparr>"
    by (simp add: env_jenkins_def task_definition_jenkins_def)
  have role: "executionRole (taskDefinition (loadBalancerFargateService env_jenkins)) =
       Some \<lparr>roleArn = ''arn:aws:iam::111972343318:role/execution''\<rparr>"
    by (simp add: env_jenkins_def task_definition_jenkins_def)
  show ?thesis
    using C2_registered_descriptor_shape [OF s] s
    unfolding app_with_env_def by (clarsimp simp: container role)
qed

section \<open>Both create and update register the descriptor\<close>

text \<open>
  C6. The custom resource of a constructed stack has the same call as \<^verbatim>\<open>onCreate\<close> and
  as \<^verbatim>\<open>onUpdate\<close>: the \<^verbatim>\<open>registerTaskDefinition\<close> action of ECS with the derived
  descriptor as parameters.
\<close>

theorem C6_onUpdate_is_onCreate:
  assumes "BenkhardJenkinsStack e ident props = Inr s"
  shows "\<exists>p call.
     custom_resources s = [p] \<and>
     onCreate p = Some call \<and> onUpdate p = Some call \<and> onUpdate p = onCreate p \<and>
     call = createOrUpdateCustomTaskDefinition e \<and>
     call_service call = ''ECS'' \<and>
     call_action call = ''registerTaskDefinition'' \<and>
     call_parameters call = customTaskDefinitionJson e"
  using success_custom_resources [OF assms]
  by (simp add: customTaskDefinition_props_def createOrUpdateCustomTaskDefinition_def)

theorem C6_onUpdate_is_onCreate_witness:
  "\<exists>s p. app env_jenkins = Inr s \<and> custom_resources s = [p] \<and> onUpdate p = onCreate p \<and>
     map_option call_action (onUpdate p) = Some ''registerTaskDefinition''"
proof -
  obtain s where s: "BenkhardJenkinsStack env_jenkins ''BenkhardJenkinsStack'' None = Inr s"
    using env_jenkins_success by blast
  from C6_onUpdate_is_onCreate [OF s] show ?thesis
    using s by (auto simp: app_def)
qed

section \<open>Grants and network rules\<close>

text \<open>
  C5. A constructed stack has both network rules between the connections of the service and
  the file system on TCP port 2049: one allowing traffic from the file system and one
  allowing traffic to it.
\<close>

theorem C5_both_directions_on_2049:
  assumes "BenkhardJenkinsStack e ident props = Inr s"
  shows "\<lparr>rule_direction = From, rule_peer = fileSystem e, rule_port = Tcp 2049\<rparr>
           \<in> set (connectionRules s) \<and>
         \<lparr>rule_direction = To, rule_peer = fileSystem e, rule_port = Tcp 2049\<rparr>
           \<in> set (connectionRules s)"
  using success_connectionRules [OF assms] by simp

theorem C5_both_directions_on_2049_witness:
  "\<exists>s. app env_jenkins = Inr s \<and>
     \<lparr>rule_direction = From, rule_peer = \<lparr>fileSystemId = ''fs-0123''\<rparr>, rule_port = Tcp 2049\<rparr>
       \<in> set (connectionRules s) \<and>
     \<lparr>rule_direction = To, rule_peer = \<lparr>fileSystemId = ''fs-0123''\<rparr>, rule_port = Tcp 2049\<rparr>
       \<in> set (connectionRules s)"
proof -
  obtain s where s: "BenkhardJenkinsStack env_jenkins ''BenkhardJenkinsStack'' None = Inr s"
    using env_jenkins_success by blast
  from C5_both_directions_on_2049 [OF s] show ?thesis
    using s by (auto simp: app_def env_jenkins_def)
qed

text \<open>
  C4. The placeholder that the service builder hands over has an execution role. In every
  constructed stack the principal of the custom resource, which performs the registration,
  then holds exactly two pass-role grants: one on that execution role and one on the task
  role of the placeholder.
\<close>

theorem C4_pass_role_grants:
  assumes "BenkhardJenkinsStack e ident props = Inr s"
    and "executionRole (taskDefinition (loadBalancerFargateService e)) = Some r"
  shows "passRoleGrants s =
           [\<lparr>granted_role = r, grantee = grantPrincipal e\<rparr>,
            \<lparr>granted_role = taskRole (taskDefinition (loadBalancerFargateService e)),
              grantee = grantPrincipal e\<rparr>] \<and>
         \<lparr>granted_role = r, grantee = grantPrincipal e\<rparr> \<in> set (passRoleGrants s) \<and>
         \<lparr>granted_role = taskRole (taskDefinition (loadBalancerFargateService e)),
           grantee = grantPrincipal e\<rparr> \<in> set (passRoleGrants s)"
  using success_passRoleGrants [OF assms(1)] assms(2)
  by (simp add: execution_role_grants_def task_role_grant_def)

theorem C4_pass_role_grants_witness:
  "\<exists>s. app_with_env env_jenkins = Inr s \<and>
     map (\<lambda>g. (roleArn (granted_role g), grantee g)) (passRoleGrants s) =
       [(''arn:aws:iam::111972343318:role/execution'',
         ''arn:aws:iam::111972343318:role/custom-resource''),
        (''arn:aws:iam::111972343318:role/task'',
         ''arn:aws:iam::111972343318:role/custom-resource'')]"
proof -
  obtain s where s:
    "BenkhardJenkinsStack env_jenkins ''BenkhardJenkinsStack''
       (Some \<lparr>props_env = Some \<lparr>account = ''111972343318'', region = ''eu-west-1''\<rparr>\<rparr>) = Inr s"
    using env_jenkins_success by blast
  have role: "executionRole (taskDefinition (loadBalancerFargateService env_jenkins)) =
       Some \<lparr>roleArn = ''arn:aws:iam::111972343318:role/execution''\<rparr>"
    by (simp add: env_jenkins_def task_definition_jenkins_def)
  have task: "taskRole (taskDefinition (loadBalancerFargateService env_jenkins)) =
       \<lparr>roleArn = ''arn:aws:iam::111972343318:role/task''\<rparr>"
    and principal: "grantPrincipal env_jenkins =
       ''arn:aws:iam::111972343318:role/custom-resource''"
    by (simp_all add: env_jenkins_def task_definition_jenkins_def)
  show ?thesis
    using C4_pass_role_grants [OF s role] s
    unfolding app_with_env_def by (simp add: task principal)
qed

section \<open>The override of the service's task definition\<close>

text \<open>
  The service that the builder hands over has its resource as the child \<^verbatim>\<open>Service\<close> of
  its node, which is what \<^verbatim>\<open>tryFindChild("Service")\<close> looks up, and its placeholder has an
  execution role. The two theorems of this section are about the stacks built on such a
  service: there neither \<^verbatim>\<open>?.\<close> skips its call.
\<close>

text \<open>
  C1. In a constructed stack the code has called \<^verbatim>\<open>addPropertyOverride\<close> on the child
  \<^verbatim>\<open>Service\<close> of the service, for the property \<^verbatim>\<open>TaskDefinition\<close>, with the response
  field \<^verbatim>\<open>taskDefinition.taskDefinitionArn\<close> of the custom resource
  \<^verbatim>\<open>CustomFargateTaskDefinition\<close>. That field is the output path of the register call of
  the one custom resource of the stack, whose descriptor has the volume mount. The
  task-definition property of the service is then that response field, whatever the builder
  had declared, and so not a reference to the placeholder task definition.
\<close>

theorem C1_service_refers_to_registered_revision:
  assumes "BenkhardJenkinsStack e ident props = Inr s"
    and "serviceNodeChildren (loadBalancerFargateService e) ''Service'' = Some r"
  shows "\<exists>r' cr call.
     serviceNode s ''Service'' = Some r' \<and>
     r' = addPropertyOverride ''TaskDefinition''
            (ResponseField ''CustomFargateTaskDefinition'' (call_outputPath call)) r \<and>
     deployedTaskDefinition r' =
       ResponseField ''CustomFargateTaskDefinition'' (call_outputPath call) \<and>
     call_outputPath call = ''taskDefinition.taskDefinitionArn'' \<and>
     (\<forall>td. deployedTaskDefinition r' \<noteq> TaskDefinitionRef td) \<and>
     taskDefinitionProperty r' = taskDefinitionProperty r \<and>
     custom_resources s = [cr] \<and>
     (''JenkinsService'', ''CustomFargateTaskDefinition'', AwsCustomResource cr)
       \<in> set (constructs s) \<and>
     onCreate cr = Some call \<and> onUpdate cr = Some call \<and>
     call_service call = ''ECS'' \<and>
     call_action call = ''registerTaskDefinition'' \<and>
     map cd_mountPoints (td_containerDefinitions (call_parameters call)) =
       [[\<lparr>mp_containerPath = ''/var/jenkins_home'', mp_sourceVolume = ''efs'',
          mp_readOnly = False\<rparr>]] \<and>
     map vol_name (td_volumes (call_parameters call)) = [''efs'']"
  using success_serviceNode [OF assms(1)] success_custom_resource_scope [OF assms(1)]
    success_custom_resources [OF assms(1)] assms(2)
  by (simp add: overridden_def deployedTaskDefinition_def addPropertyOverride_def
      getResponseField_def customTaskDefinition_props_def
      createOrUpdateCustomTaskDefinition_def customTaskDefinitionJson_def
      jenkinsEfsMountPoint_def efsVolume_def)

theorem C1_service_refers_to_registered_revision_witness:
  "\<exists>s. app_with_env env_jenkins = Inr s \<and>
     map_option deployedTaskDefinition (serviceNode s ''Service'') =
       Some (ResponseField ''CustomFargateTaskDefinition'' ''taskDefinition.taskDefinitionArn'') \<and>
     map_option deployedTaskDefinition
       (serviceNodeChildren (loadBalancerFargateService env_jenkins) ''Service'') =
       Some (TaskDefinitionRef ''JenkinsServiceTaskDef'')"
proof -
  obtain s where s:
    "BenkhardJenkinsStack env_jenkins ''BenkhardJenkinsStack''
       (Some \<lparr>props_env = Some \<lparr>account = ''111972343318'', region = ''eu-west-1''\<rparr>\<rparr>) = Inr s"
    using env_jenkins_success by blast
  have child: "serviceNodeChildren (loadBalancerFargateService env_jenkins) ''Service'' =
          Some placeholder_service"
    by (simp add: env_jenkins_def)
  have before: "deployedTaskDefinition placeholder_service =
      TaskDefinitionRef ''JenkinsServiceTaskDef''"
    by (simp add: deployedTaskDefinition_def placeholder_service_def)
  from C1_service_refers_to_registered_revision [OF s child] show ?thesis
    using s unfolding app_with_env_def by (auto simp: child before)
qed



section \<open>Configuration inputs\<close>

text \<open>
  C7, as the claim states it, fails: the image, the cpu units, the memory limit, the container
  port, the replica count and the zone name are literals of the constructor, and the deploy
  target is a literal of the entry point. \<open>env_jenkins\<close> and \<open>env_elsewhere\<close> differ in
  every lookup the constructor makes, and the two stacks agree on all of these values.
\<close>

theorem C7_counterexample:
  "vpcFromLookup env_jenkins True \<noteq> vpcFromLookup env_elsewhere True \<and>
   valueFromLookup env_jenkins ''/com/benkhard/wildcard-certificate'' \<noteq>
     valueFromLookup env_elsewhere ''/com/benkhard/wildcard-certificate'' \<and>
   valueFromLookup env_jenkins ''/com/benkhard/public-hosted-zone-id'' \<noteq>
     valueFromLookup env_elsewhere ''/com/benkhard/public-hosted-zone-id'' \<and>
   \<not> isl (app_with_env env_jenkins) \<and> \<not> isl (app_with_env env_elsewhere) \<and>
   map (\<lambda>p. (tio_image (sp_taskImageOptions p), sp_cpu p, sp_memoryLimitMiB p,
              tio_containerPort (sp_taskImageOptions p), sp_desiredCount p,
              zoneName (sp_domainZone p)))
     (services (projr (app_with_env env_jenkins))) =
     [(''jenkins/jenkins'', 256, 1024, 8080, 1, ''benkhard.com'')] \<and>
   map (\<lambda>p. (tio_image (sp_taskImageOptions p), sp_cpu p, sp_memoryLimitMiB p,
              tio_containerPort (sp_taskImageOptions p), sp_desiredCount p,
              zoneName (sp_domainZone p)))
     (services (projr (app_with_env env_elsewhere))) =
     [(''jenkins/jenkins'', 256, 1024, 8080, 1, ''benkhard.com'')] \<and>
   stackProps (projr (app_with_env env_jenkins)) =
     Some \<lparr>props_env = Some \<lparr>account = ''111972343318'', region = ''eu-west-1''\<rparr>\<rparr> \<and>
   stackProps (projr (app_with_env env_elsewhere)) =
     Some \<lparr>props_env = Some \<lparr>account = ''111972343318'', region = ''eu-west-1''\<rparr>\<rparr>"
proof -
  let ?props = "Some \<lparr>props_env = Some \<lparr>account = ''111972343318'', region = ''eu-west-1''\<rparr>\<rparr>"
  obtain s where s: "BenkhardJenkinsStack env_jenkins ''BenkhardJenkinsStack'' ?props = Inr s"
    using env_jenkins_success by blast
  obtain t where t: "BenkhardJenkinsStack env_elsewhere ''BenkhardJenkinsStack'' ?props = Inr t"
    using env_elsewhere_success by blast
  have lookups:
    "vpcFromLookup env_jenkins True \<noteq> vpcFromLookup env_elsewhere True \<and>
     valueFromLookup env_jenkins ''/com/benkhard/wildcard-certificate'' \<noteq>
       valueFromLookup env_elsewhere ''/com/benkhard/wildcard-certificate'' \<and>
     valueFromLookup env_jenkins ''/com/benkhard/public-hosted-zone-id'' \<noteq>
       valueFromLookup env_elsewhere ''/com/benkhard/public-hosted-zone-id''"
    by (simp add: env_elsewhere_def env_jenkins_def)
  have "app_with_env env_jenkins = Inr s" "app_with_env env_elsewhere = Inr t"
    using s t by (simp_all add: app_with_env_def)
  with lookups success_services [OF s] success_services [OF t]
    success_stackProps [OF s] success_stackProps [OF t]
  show ?thesis
    by (simp add: loadBalancerFargateService_props_def image_str_def cpu_def memoryLimit_def
        containerPort_def hostedZone_def)
qed

text \<open>
  C7, amended. Read from outside at construction: the network (the lookup of the default
  VPC; the default flag itself is the literal \<^verbatim>\<open>true\<close>), the certificate reference
  (parameter \<^verbatim>\<open>/com/benkhard/wildcard-certificate\<close>) and the identifier of the DNS zone
  (parameter \<^verbatim>\<open>/com/benkhard/public-hosted-zone-id\<close>). Fixed in the program: the zone name
  \<^verbatim>\<open>benkhard.com\<close>, the image \<^verbatim>\<open>jenkins/jenkins\<close>, 256 cpu units, 1024 MiB, container
  port 8080 and desired count 1; the deploy target is what the entry point passes, nothing in
  its first version and account 111972343318 in eu-west-1 in its second.
\<close>

theorem C7_inputs_read_and_fixed:
  "(\<forall>s. BenkhardJenkinsStack e ident props = Inr s \<longrightarrow>
      (ident, ''PlatformCluster'',
         EcsCluster \<lparr>cp_vpc = vpcFromLookup e True, cp_clusterName = ''jenkins-cluster''\<rparr>)
        \<in> set (constructs s) \<and>
      stackProps s = props \<and>
      (\<exists>p. services s = [p] \<and>
         certificateArn (sp_certificate p) =
           valueFromLookup e ''/com/benkhard/wildcard-certificate'' \<and>
         hostedZoneId (sp_domainZone p) =
           valueFromLookup e ''/com/benkhard/public-hosted-zone-id'' \<and>
         zoneName (sp_domainZone p) = ''benkhard.com'' \<and>
         tio_image (sp_taskImageOptions p) = ''jenkins/jenkins'' \<and>
         sp_cpu p = 256 \<and>
         sp_memoryLimitMiB p = 1024 \<and>
         tio_containerPort (sp_taskImageOptions p) = 8080 \<and>
         sp_desiredCount p = 1)) \<and>
   (\<forall>s. app e = Inr s \<longrightarrow> stackProps s = None) \<and>
   (\<forall>s. app_with_env e = Inr s \<longrightarrow>
      stackProps s =
        Some \<lparr>props_env = Some \<lparr>account = ''111972343318'', region = ''eu-west-1''\<rparr>\<rparr>)"
proof (intro conjI allI impI)
  fix s assume s: "BenkhardJenkinsStack e ident props = Inr s"
  show "(ident, ''PlatformCluster'',
         EcsCluster \<lparr>cp_vpc = vpcFromLookup e True, cp_clusterName = ''jenkins-cluster''\<rparr>)
        \<in> set (constructs s)"
    by (rule success_cluster [OF s])
  show "stackProps s = props"
    by (rule success_stackProps [OF s])
  show "\<exists>p. services s = [p] \<and>
         certificateArn (sp_certificate p) =
           valueFromLookup e ''/com/benkhard/wildcard-certificate'' \<and>
         hostedZoneId (sp_domainZone p) =
           valueFromLookup e ''/com/benkhard/public-hosted-zone-id'' \<and>
         zoneName (sp_domainZone p) = ''benkhard.com'' \<and>
         tio_image (sp_taskImageOptions p) = ''jenkins/jenkins'' \<and>
         sp_cpu p = 256 \<and>
         sp_memoryLimitMiB p = 1024 \<and>
         tio_containerPort (sp_taskImageOptions p) = 8080 \<and>
         sp_desiredCount p = 1"
    using success_services [OF s]
    by (simp add: loadBalancerFargateService_props_def image_str_def cpu_def memoryLimit_def
        containerPort_def hostedZone_def hostedZoneId_local_def certificate_def
        certificateArn_local_def)
next
  fix s assume "app e = Inr s"
  then show "stackProps s = None"
    unfolding app_def by (rule success_stackProps)
next
  fix s assume "app_with_env e = Inr s"
  then show "stackProps s =
        Some \<lparr>props_env = Some \<lparr>account = ''111972343318'', region = ''eu-west-1''\<rparr>\<rparr>"
    unfolding app_with_env_def by (rule success_stackProps)
qed

theorem C7_inputs_read_and_fixed_witness:
  "(\<exists>s. app env_elsewhere = Inr s \<and> stackProps s = None \<and>
      map (\<lambda>p. (certificateArn (sp_certificate p), hostedZoneId (sp_domainZone p), sp_cpu p))
        (services s) =
        [(''elsewhere:/com/benkhard/wildcard-certificate'',
          ''elsewhere:/com/benkhard/public-hosted-zone-id'', 256)]) \<and>
   (\<exists>s. app_with_env env_elsewhere = Inr s \<and>
      map_option props_env (stackProps s) =
        Some (Some \<lparr>account = ''111972343318'', region = ''eu-west-1''\<rparr>))"
proof -
  let ?props = "Some \<lparr>props_env = Some \<lparr>account = ''111972343318'', region = ''eu-west-1''\<rparr>\<rparr>"
  obtain s where s: "BenkhardJenkinsStack env_elsewhere ''BenkhardJenkinsStack'' None = Inr s"
    using env_elsewhere_success by blast
  obtain t where t: "BenkhardJenkinsStack env_elsewhere ''BenkhardJenkinsStack'' ?props = Inr t"
    using env_elsewhere_success by blast
  have a: "app env_elsewhere = Inr s" and b: "app_with_env env_elsewhere = Inr t"
    using s t by (simp_all add: app_def app_with_env_def)
  note inst = C7_inputs_read_and_fixed [of env_elsewhere "''BenkhardJenkinsStack''" None]
  from inst s have "\<exists>p. services s = [p] \<and>
         certificateArn (sp_certificate p) =
           valueFromLookup env_elsewhere ''/com/benkhard/wildcard-certificate'' \<and>
         hostedZoneId (sp_domainZone p) =
           valueFromLookup env_elsewhere ''/com/benkhard/public-hosted-zone-id'' \<and>
         sp_cpu p = 256"
    by blast
  then have "map (\<lambda>p. (certificateArn (sp_certificate p), hostedZoneId (sp_domainZone p), sp_cpu p))
        (services s) =
        [(''elsewhere:/com/benkhard/wildcard-certificate'',
          ''elsewhere:/com/benkhard/public-hosted-zone-id'', 256)]"
    by (auto simp: env_elsewhere_def env_jenkins_def)
  moreover from inst a have "stackProps s = None" by blast
  moreover from inst b have "stackProps t = ?props" by blast
  ultimately show ?thesis
    using a b by simp
qed

section \<open>The end-to-end scenario\<close>

text \<open>
  C8. The constructor's inputs are image \<^verbatim>\<open>jenkins/jenkins\<close>, cpu 256, memory 1024, port
  8080 and one replica. A constructed stack has exactly one service, with these inputs and
  desired count 1, which is given the looked-up certificate for its listener; exactly one
  custom resource registering a task definition, whose single container has a single mount
  point, at \<^verbatim>\<open>/var/jenkins_home\<close>; exactly one access point, at path \<^verbatim>\<open>/jenkins\<close> with
  POSIX uid and gid 1000; and the health check of the target group at path \<^verbatim>\<open>/login\<close>.
\<close>

theorem C8_end_to_end:
  assumes "BenkhardJenkinsStack e ident props = Inr s"
  shows "\<exists>sv cr call c m ap.
     services s = [sv] \<and>
     tio_image (sp_taskImageOptions sv) = ''jenkins/jenkins'' \<and>
     sp_cpu sv = 256 \<and> sp_memoryLimitMiB sv = 1024 \<and>
     tio_containerPort (sp_taskImageOptions sv) = 8080 \<and>
     sp_desiredCount sv = 1 \<and>
     certificateArn (sp_certificate sv) =
       valueFromLookup e ''/com/benkhard/wildcard-certificate'' \<and>
     custom_resources s = [cr] \<and>
     onCreate cr = Some call \<and>
     call_action call = ''registerTaskDefinition'' \<and>
     td_containerDefinitions (call_parameters call) = [c] \<and>
     cd_mountPoints c = [m] \<and>
     mp_containerPath m = ''/var/jenkins_home'' \<and>
     mp_sourceVolume m = ''efs'' \<and>
     map vol_name (td_volumes (call_parameters call)) = [''efs''] \<and>
     access_points s = [ap] \<and>
     ap_path ap = ''/jenkins'' \<and>
     uid (posixUser ap) = ''1000'' \<and> gid (posixUser ap) = ''1000'' \<and>
     healthCheckPath s = Some ''/login''"
  using success_services [OF assms] success_custom_resources [OF assms]
    success_access_points [OF assms] success_healthCheckPath [OF assms]
  by (simp add: loadBalancerFargateService_props_def image_str_def cpu_def memoryLimit_def
      containerPort_def certificate_def certificateArn_local_def customTaskDefinition_props_def
      createOrUpdateCustomTaskDefinition_def customTaskDefinitionJson_def
      jenkinsEfsMountPoint_def efsVolume_def)

theorem C8_end_to_end_witness:
  "\<exists>s. app env_jenkins = Inr s \<and>
     map sp_desiredCount (services s) = [1] \<and>
     length (custom_resources s) = 1 \<and>
     map ap_path (access_points s) = [''/jenkins''] \<and>
     healthCheckPath s = Some ''/login''"
proof -
  obtain s where s: "BenkhardJenkinsStack env_jenkins ''BenkhardJenkinsStack'' None = Inr s"
    using env_jenkins_success by blast
  from C8_end_to_end [OF s] show ?thesis
    using s by (auto simp: app_def)
qed

section \<open>Missing optional collaborators\<close>

text \<open>
  C9. The construction does not fail on a missing execution role or default container: when
  no library call raises it succeeds, whatever the placeholder lacks. The task-role grant is
  always made. Without an execution role there is no other grant and the descriptor's
  \<^verbatim>\<open>executionRoleArn\<close> is undefined; without a default container the container's name, log
  driver and log options are undefined.
\<close>

theorem C9_total_on_missing_collaborators:
  assumes "\<forall>c. \<not> throws e c"
  shows "\<exists>s. BenkhardJenkinsStack e ident props = Inr s \<and>
     \<lparr>granted_role = taskRole (taskDefinition (loadBalancerFargateService e)),
       grantee = grantPrincipal e\<rparr> \<in> set (passRoleGrants s) \<and>
     (executionRole (taskDefinition (loadBalancerFargateService e)) = None \<longrightarrow>
        passRoleGrants s =
          [\<lparr>granted_role = taskRole (taskDefinition (loadBalancerFargateService e)),
            grantee = grantPrincipal e\<rparr>] \<and>
        td_executionRoleArn (customTaskDefinitionJson e) = None) \<and>
     (defaultContainer (taskDefinition (loadBalancerFargateService e)) = None \<longrightarrow>
        map (\<lambda>c. (cd_name c, lc_logDriver (cd_logConfiguration c),
                  lc_options (cd_logConfiguration c)))
          (td_containerDefinitions (customTaskDefinitionJson e)) = [(None, None, None)]) \<and>
     custom_resources s = [customTaskDefinition_props e]"
proof -
  obtain s where s: "BenkhardJenkinsStack e ident props = Inr s"
    using no_throw_success [of e ident props] assms by blast
  note grants = success_passRoleGrants [OF s]
  have task: "\<lparr>granted_role = taskRole (taskDefinition (loadBalancerFargateService e)),
       grantee = grantPrincipal e\<rparr> \<in> set (passRoleGrants s)"
    by (simp add: grants task_role_grant_def)
  have no_role: "executionRole (taskDefinition (loadBalancerFargateService e)) = None \<longrightarrow>
        passRoleGrants s =
          [\<lparr>granted_role = taskRole (taskDefinition (loadBalancerFargateService e)),
            grantee = grantPrincipal e\<rparr>] \<and>
        td_executionRoleArn (customTaskDefinitionJson e) = None"
    by (simp add: grants execution_role_grants_def task_role_grant_def
        customTaskDefinitionJson_def)
  have no_container:
    "defaultContainer (taskDefinition (loadBalancerFargateService e)) = None \<longrightarrow>
        map (\<lambda>c. (cd_name c, lc_logDriver (cd_logConfiguration c),
                  lc_options (cd_logConfiguration c)))
          (td_containerDefinitions (customTaskDefinitionJson e)) = [(None, None, None)]"
    by (simp add: customTaskDefinitionJson_def)
  show ?thesis
    by (rule exI [of _ s]) (intro conjI s task no_role no_container
        success_custom_resources [OF s])
qed

theorem C9_total_on_missing_collaborators_witness:
  "\<exists>s. app env_bare = Inr s \<and>
     map (\<lambda>g. roleArn (granted_role g)) (passRoleGrants s) =
       [''arn:aws:iam::111972343318:role/task''] \<and>
     td_executionRoleArn (customTaskDefinitionJson env_bare) = None \<and>
     map cd_name (td_containerDefinitions (customTaskDefinitionJson env_bare)) = [None]"
proof -
  have quiet: "\<forall>c. \<not> throws env_bare c"
    by (simp add: env_bare_def env_jenkins_def)
  have none: "executionRole (taskDefinition (loadBalancerFargateService env_bare)) = None"
    "defaultContainer (taskDefinition (loadBalancerFargateService env_bare)) = None"
    by (simp_all add: env_bare_def env_jenkins_def)
  have roles: "taskRole (taskDefinition (loadBalancerFargateService env_bare)) =
      \<lparr>roleArn = ''arn:aws:iam::111972343318:role/task''\<rparr>"
    by (simp add: env_bare_def env_jenkins_def)
  show ?thesis
    using C9_total_on_missing_collaborators [OF quiet, of "''BenkhardJenkinsStack''" None]
    unfolding app_def by (clarsimp simp: none roles)
qed

section \<open>The volume and its access point\<close>

text \<open>
  C10. Every volume of the registered descriptor has the root directory \<^verbatim>\<open>/\<close> and names
  the access point in its authorization config; the path \<^verbatim>\<open>/jenkins\<close> and the identity
  1000/1000 are properties of the access point only, and every access point of a constructed
  stack has them.
\<close>

theorem C10_volume_root_and_access_point:
  "td_volumes (customTaskDefinitionJson e) = [efsVolume e] \<and>
   (\<forall>v \<in> set (td_volumes (customTaskDefinitionJson e)).
      vc_rootDirectory (vol_efsVolumeConfiguration v) = ''/'' \<and>
      vc_rootDirectory (vol_efsVolumeConfiguration v) \<noteq> ''/jenkins'' \<and>
      vc_fileSystemId (vol_efsVolumeConfiguration v) = fileSystemId (fileSystem e) \<and>
      vc_authorizationConfig (vol_efsVolumeConfiguration v) =
        \<lparr>ac_accessPointId = accessPointId (accessPoint e)\<rparr>) \<and>
   (\<forall>s. BenkhardJenkinsStack e ident props = Inr s \<longrightarrow>
      length (access_points s) = 1 \<and>
      (\<forall>ap \<in> set (access_points s).
         ap_path ap = ''/jenkins'' \<and>
         posixUser ap = \<lparr>gid = ''1000'', uid = ''1000''\<rparr> \<and>
         createAcl ap = \<lparr>ownerGid = ''1000'', ownerUid = ''1000'', permissions = ''777''\<rparr>))"
proof (intro conjI allI impI)
  show "td_volumes (customTaskDefinitionJson e) = [efsVolume e]"
    by (simp add: customTaskDefinitionJson_def)
  show "\<forall>v \<in> set (td_volumes (customTaskDefinitionJson e)).
      vc_rootDirectory (vol_efsVolumeConfiguration v) = ''/'' \<and>
      vc_rootDirectory (vol_efsVolumeConfiguration v) \<noteq> ''/jenkins'' \<and>
      vc_fileSystemId (vol_efsVolumeConfiguration v) = fileSystemId (fileSystem e) \<and>
      vc_authorizationConfig (vol_efsVolumeConfiguration v) =
        \<lparr>ac_accessPointId = accessPointId (accessPoint e)\<rparr>"
    by (simp add: customTaskDefinitionJson_def efsVolume_def)
next
  fix s assume s: "BenkhardJenkinsStack e ident props = Inr s"
  show "length (access_points s) = 1"
    using success_access_points [OF s] by simp
  show "\<forall>ap \<in> set (access_points s).
         ap_path ap = ''/jenkins'' \<and>
         posixUser ap = \<lparr>gid = ''1000'', uid = ''1000''\<rparr> \<and>
         createAcl ap = \<lparr>ownerGid = ''1000'', ownerUid = ''1000'', permissions = ''777''\<rparr>"
    using success_access_points [OF s] by simp
qed

theorem C10_volume_root_and_access_point_witness:
  "map (\<lambda>v. (vc_rootDirectory (vol_efsVolumeConfiguration v),
             ac_accessPointId (vc_authorizationConfig (vol_efsVolumeConfiguration v))))
     (td_volumes (customTaskDefinitionJson env_jenkins)) = [(''/'', ''fsap-0123'')] \<and>
   (\<exists>s. app env_jenkins = Inr s \<and> map ap_path (access_points s) = [''/jenkins''])"
proof -
  obtain s where s: "BenkhardJenkinsStack env_jenkins ''BenkhardJenkinsStack'' None = Inr s"
    using env_jenkins_success by blast
  note inst = C10_volume_root_and_access_point [of env_jenkins "''BenkhardJenkinsStack''" None]
  from inst have "td_volumes (customTaskDefinitionJson env_jenkins) = [efsVolume env_jenkins]"
    by blast
  then have "map (\<lambda>v. (vc_rootDirectory (vol_efsVolumeConfiguration v),
             ac_accessPointId (vc_authorizationConfig (vol_efsVolumeConfiguration v))))
     (td_volumes (customTaskDefinitionJson env_jenkins)) = [(''/'', ''fsap-0123'')]"
    using inst by (simp add: efsVolume_def env_jenkins_def)
  moreover
  from inst s have "length (access_points s) = 1"
    and "\<forall>ap \<in> set (access_points s). ap_path ap = ''/jenkins''"
    by blast+
  then have "map ap_path (access_points s) = [''/jenkins'']"
    by (cases "access_points s") auto
  ultimately show ?thesis
    using s by (auto simp: app_def)
qed

end
